theory Spec2Isabelle
  imports Main
begin

section \<open>JavaScript values as the relay sees them\<close>

text \<open>
  The relay (the Express server and the serverless \<^verbatim>\<open>api/translate.js\<close> handler) only
  handles values that come out of \<^verbatim>\<open>JSON.parse\<close>: request bodies and upstream response
  bodies.  A property that is absent reads as \<^verbatim>\<open>undefined\<close>, modelled as \<open>None\<close>.
  \<open>JNum\<close> carries the integer-valued numbers below \<open>10^21\<close> in magnitude, which JavaScript
  prints in plain decimal; the relay looks at a number only through truthiness,
  \<^verbatim>\<open>typeof\<close> and string interpolation.  An object is the list of its own properties.
\<close>

datatype json =
    JNull
  | JBool bool
  | JNum int
  | JStr string
  | JArr "json list"
  | JObj "(string \<times> json) list"

type_synonym jsval = "json option"

type_synonym jobject = "(string \<times> json) list"

text \<open>Exceptions that the handlers' \<^verbatim>\<open>catch\<close> blocks see; only \<^verbatim>\<open>error.message\<close> is used.\<close>

datatype exn = TypeError string | FetchError string | SyntaxError string

fun message :: "exn \<Rightarrow> string" where
  "message (TypeError m) = m"
| "message (FetchError m) = m"
| "message (SyntaxError m) = m"

text \<open>\<^verbatim>\<open>!v\<close> is \<open>\<not> truthy v\<close>: \<^verbatim>\<open>undefined\<close>, \<^verbatim>\<open>null\<close>, \<^verbatim>\<open>false\<close>, \<^verbatim>\<open>0\<close> and \<^verbatim>\<open>""\<close> are falsy.\<close>

fun truthy_json :: "json \<Rightarrow> bool" where
  "truthy_json JNull = False"
| "truthy_json (JBool b) = b"
| "truthy_json (JNum n) = (n \<noteq> 0)"
| "truthy_json (JStr s) = (s \<noteq> [])"
| "truthy_json (JArr xs) = True"
| "truthy_json (JObj kvs) = True"

fun truthy :: "jsval \<Rightarrow> bool" where
  "truthy None = False"
| "truthy (Some v) = truthy_json v"

fun typeof :: "jsval \<Rightarrow> string" where
  "typeof None = ''undefined''"
| "typeof (Some JNull) = ''object''"
| "typeof (Some (JBool b)) = ''boolean''"
| "typeof (Some (JNum n)) = ''number''"
| "typeof (Some (JStr s)) = ''string''"
| "typeof (Some (JArr xs)) = ''object''"
| "typeof (Some (JObj kvs)) = ''object''"

text \<open>
  Property reads \<^verbatim>\<open>v.name\<close> and \<^verbatim>\<open>v[0]\<close> on a value that is not \<^verbatim>\<open>null\<close> or
  \<^verbatim>\<open>undefined\<close>, for the names the relay reads (\<^verbatim>\<open>error\<close>, \<^verbatim>\<open>message\<close>, \<^verbatim>\<open>choices\<close>):
  an object answers with its own property, everything else with \<^verbatim>\<open>undefined\<close>.
  Index \<^verbatim>\<open>0\<close> also reads the first element of an array and the first character of a
  string.
\<close>

fun get_prop :: "string \<Rightarrow> json \<Rightarrow> jsval" where
  "get_prop k (JObj kvs) = map_of kvs k"
| "get_prop k v = None"

fun index0 :: "json \<Rightarrow> jsval" where
  "index0 (JArr []) = None"
| "index0 (JArr (x # xs)) = Some x"
| "index0 (JStr []) = None"
| "index0 (JStr (c # cs)) = Some (JStr [c])"
| "index0 (JObj kvs) = map_of kvs ''0''"
| "index0 v = None"

subsection \<open>String conversion in template literals\<close>

definition digit_char :: "nat \<Rightarrow> char" where
  "digit_char d = ''0123456789'' ! d"

function show_nat :: "nat \<Rightarrow> string" where
  "show_nat n = (if n < 10 then [digit_char n] else show_nat (n div 10) @ [digit_char (n mod 10)])"
  by pat_completeness auto
termination
  by (relation "measure id") auto

declare show_nat.simps [simp del]

definition show_int :: "int \<Rightarrow> string" where
  "show_int i = (if i < 0 then CHR ''-'' # show_nat (nat (- i)) else show_nat (nat i))"

fun join_comma :: "string list \<Rightarrow> string" where
  "join_comma [] = []"
| "join_comma [s] = s"
| "join_comma (s # t # ss) = s @ '','' @ join_comma (t # ss)"

fun sequence_opt :: "'a option list \<Rightarrow> 'a list option" where
  "sequence_opt [] = Some []"
| "sequence_opt (None # xs) = None"
| "sequence_opt (Some x # xs) = map_option ((#) x) (sequence_opt xs)"

text \<open>
  \<^verbatim>\<open>`${v}`\<close> on a parsed JSON value.  \<open>None\<close> is the \<^verbatim>\<open>TypeError\<close> "Cannot convert object
  to primitive value", thrown for an object whose own \<^verbatim>\<open>toString\<close> property (never a
  function after \<^verbatim>\<open>JSON.parse\<close>) hides \<^verbatim>\<open>Object.prototype.toString\<close>.  An array joins its
  elements with commas, \<^verbatim>\<open>null\<close> elements printing as the empty string.
\<close>

fun to_string_json :: "json \<Rightarrow> string option" where
  "to_string_json JNull = Some ''null''"
| "to_string_json (JBool b) = Some (if b then ''true'' else ''false'')"
| "to_string_json (JNum n) = Some (show_int n)"
| "to_string_json (JStr s) = Some s"
| "to_string_json (JArr xs) =
     map_option join_comma
       (sequence_opt (map (\<lambda>x. if x = JNull then Some [] else to_string_json x) xs))"
| "to_string_json (JObj kvs) =
     (if map_of kvs ''toString'' = None then Some ''[object Object]'' else None)"

fun to_string :: "jsval \<Rightarrow> string option" where
  "to_string None = Some ''undefined''"
| "to_string (Some v) = to_string_json v"

definition cannot_convert :: exn where
  "cannot_convert = TypeError ''Cannot convert object to primitive value''"

text \<open>\<^verbatim>\<open>a?.name\<close>: \<^verbatim>\<open>undefined\<close> when \<^verbatim>\<open>a\<close> is \<^verbatim>\<open>undefined\<close> or \<^verbatim>\<open>null\<close>.\<close>

fun optional_prop :: "string \<Rightarrow> jsval \<Rightarrow> jsval" where
  "optional_prop k None = None"
| "optional_prop k (Some JNull) = None"
| "optional_prop k (Some v) = get_prop k v"

text \<open>\<^verbatim>\<open>a || d\<close> for a default \<^verbatim>\<open>d\<close> that is a defined value.\<close>

fun or_else :: "jsval \<Rightarrow> json \<Rightarrow> json" where
  "or_else None d = d"
| "or_else (Some v) d = (if truthy_json v then v else d)"

section \<open>Configuration, upstream and responses\<close>

text \<open>
  \<^verbatim>\<open>process.env\<close>, read at every request.  \<^verbatim>\<open>MAX_TOKENS\<close> and \<^verbatim>\<open>TEMPERATURE\<close> only fill
  two more fields of the upstream request and decide nothing in the relay; they are
  left out, as are the CORS headers that every response carries.
\<close>

record env =
  GROQ_API_KEY :: "string option"
  GROQ_MODEL :: "string option"

definition env_value :: "string option \<Rightarrow> jsval" where
  "env_value v = map_option JStr v"

text \<open>The one call to \<^verbatim>\<open>https://api.groq.com/openai/v1/chat/completions\<close>.\<close>

record groq_request =
  authorization :: string
  model :: json
  user_content :: jsval

text \<open>
  What \<^verbatim>\<open>fetch\<close> and then \<^verbatim>\<open>response.json()\<close> give: \<open>Rejected\<close> when the transport fails,
  otherwise the status and either the parsed body or the error of parsing it.
\<close>

datatype fetch_result = Rejected exn | Response nat "exn + json"

type_synonym upstream = "groq_request \<Rightarrow> fetch_result"

definition ok :: "nat \<Rightarrow> bool" where
  "ok st = (200 \<le> st \<and> st \<le> 299)"

text \<open>What a handler did: the status and JSON body it sent, and the upstream calls it made.\<close>

record result =
  status :: nat
  body :: "json option"
  upstream_calls :: "groq_request list"

definition send_json :: "nat \<Rightarrow> json \<Rightarrow> groq_request list \<Rightarrow> result" where
  "send_json st b calls = \<lparr>status = st, body = Some b, upstream_calls = calls\<rparr>"

definition error_body :: "string \<Rightarrow> json" where
  "error_body msg = JObj [(''error'', JStr msg)]"

definition groq_call :: "env \<Rightarrow> jsval \<Rightarrow> groq_request" where
  "groq_call e prompt =
     \<lparr>authorization = ''Bearer '' @ (case GROQ_API_KEY e of None \<Rightarrow> ''undefined'' | Some k \<Rightarrow> k),
      model = or_else (env_value (GROQ_MODEL e)) (JStr ''llama-3.1-8b-instant''),
      user_content = prompt\<rparr>"

text \<open>\<^verbatim>\<open>errorData.error?.message || 'API request failed'\<close>; reading \<^verbatim>\<open>null.error\<close> throws.\<close>

definition upstream_error_message :: "json \<Rightarrow> exn + json" where
  "upstream_error_message errorData =
     (if errorData = JNull then Inl (TypeError ''Cannot read properties of null (reading 'error')'')
      else Inr (or_else (optional_prop ''message'' (get_prop ''error'' errorData))
                  (JStr ''API request failed'')))"

text \<open>
  \<^verbatim>\<open>!data.choices || !data.choices[0] || !data.choices[0].message\<close>; reading
  \<^verbatim>\<open>null.choices\<close> throws.
\<close>

definition invalid_structure :: "json \<Rightarrow> exn + bool" where
  "invalid_structure data =
     (if data = JNull then Inl (TypeError ''Cannot read properties of null (reading 'choices')'')
      else Inr (case get_prop ''choices'' data of
                  None \<Rightarrow> True
                | Some choices \<Rightarrow>
                    if \<not> truthy_json choices then True
                    else (case index0 choices of
                            None \<Rightarrow> True
                          | Some choice \<Rightarrow>
                              if \<not> truthy_json choice then True
                              else \<not> truthy (get_prop ''message'' choice))))"

text \<open>The \<^verbatim>\<open>catch\<close> block, the same in all three handlers.\<close>

definition catch_error :: "exn \<Rightarrow> groq_request list \<Rightarrow> result" where
  "catch_error e calls = send_json 500 (error_body (''Internal server error: '' @ message e)) calls"

section \<open>The server: \<^verbatim>\<open>app.post("/translate")\<close>\<close>

text \<open>
  \<^verbatim>\<open>req.body\<close> is the JSON object that the body parser hands to the handlers, given as
  its properties; \<^verbatim>\<open>const { prompt } = req.body\<close> reads \<^verbatim>\<open>undefined\<close> for a property the
  object does not have.
\<close>

definition translate_route :: "env \<Rightarrow> upstream \<Rightarrow> jobject \<Rightarrow> result" where
  "translate_route e up req_body =
     (let prompt = map_of req_body ''prompt'' in
      if \<not> truthy prompt \<or> typeof prompt \<noteq> ''string'' then
        send_json 400 (error_body ''Invalid request: prompt is required and must be a string'') []
      else if \<not> truthy (env_value (GROQ_API_KEY e)) then
        send_json 500
          (error_body ''Server configuration error: GROQ_API_KEY not found in environment variables'') []
      else
        let call = groq_call e prompt in
        case up call of
          Rejected x \<Rightarrow> catch_error x [call]
        | Response st (Inl x) \<Rightarrow> catch_error x [call]
        | Response st (Inr parsed) \<Rightarrow>
            if \<not> ok st then
              (case upstream_error_message parsed of
                 Inl x \<Rightarrow> catch_error x [call]
               | Inr m \<Rightarrow> send_json st (JObj [(''error'', m), (''details'', parsed)]) [call])
            else
              (case invalid_structure parsed of
                 Inl x \<Rightarrow> catch_error x [call]
               | Inr True \<Rightarrow> send_json 500 (error_body ''Invalid response from AI service'') [call]
               | Inr False \<Rightarrow> send_json 200 parsed [call]))"

section \<open>The serverless handler: \<^verbatim>\<open>api/translate.js\<close>\<close>

record request =
  http_method :: string
  http_body :: jobject

definition handler :: "env \<Rightarrow> upstream \<Rightarrow> request \<Rightarrow> result" where
  "handler e up req =
     (if http_method req = ''OPTIONS'' then \<lparr>status = 200, body = None, upstream_calls = []\<rparr>
      else if http_method req \<noteq> ''POST'' then send_json 405 (error_body ''Method not allowed'') []
      else
        let prompt = map_of (http_body req) ''prompt'' in
        if \<not> truthy prompt \<or> typeof prompt \<noteq> ''string'' then
          send_json 400 (error_body ''Invalid request: prompt is required and must be a string'') []
        else if \<not> truthy (env_value (GROQ_API_KEY e)) then
          send_json 500 (error_body ''Server configuration error: GROQ_API_KEY not found'') []
        else
          let call = groq_call e prompt in
          case up call of
            Rejected x \<Rightarrow> catch_error x [call]
          | Response st (Inl x) \<Rightarrow> catch_error x [call]
          | Response st (Inr parsed) \<Rightarrow>
              if \<not> ok st then
                (case upstream_error_message parsed of
                   Inl x \<Rightarrow> catch_error x [call]
                 | Inr m \<Rightarrow> send_json st (JObj [(''error'', m)]) [call])
              else
                (case invalid_structure parsed of
                   Inl x \<Rightarrow> catch_error x [call]
                 | Inr True \<Rightarrow> send_json 500 (error_body ''Invalid response from AI service'') [call]
                 | Inr False \<Rightarrow> send_json 200 parsed [call]))"

section \<open>The server: \<^verbatim>\<open>app.post("/ai/:task")\<close>\<close>

text \<open>A template literal with one and with two interpolated values, converted left to right.\<close>

definition template1 :: "string \<Rightarrow> jsval \<Rightarrow> string \<Rightarrow> exn + string" where
  "template1 s0 v s1 =
     (case to_string v of None \<Rightarrow> Inl cannot_convert | Some t \<Rightarrow> Inr (s0 @ t @ s1))"

definition template2 :: "string \<Rightarrow> jsval \<Rightarrow> string \<Rightarrow> jsval \<Rightarrow> string \<Rightarrow> exn + string" where
  "template2 s0 v s1 w s2 =
     (case to_string v of
        None \<Rightarrow> Inl cannot_convert
      | Some t \<Rightarrow> (case to_string w of None \<Rightarrow> Inl cannot_convert | Some u \<Rightarrow> Inr (s0 @ t @ s1 @ u @ s2)))"

text \<open>
  The \<^verbatim>\<open>switch (task)\<close>: \<open>Inl\<close> is a response sent from inside the switch, \<open>Inr (Inl x)\<close> an
  exception thrown while the template is evaluated, \<open>Inr (Inr p)\<close> the prompt.
\<close>

definition switch_task :: "string \<Rightarrow> jsval \<Rightarrow> jsval \<Rightarrow> result + exn + string" where
  \<open>switch_task task content language =
     (if task = ''summary'' then
        Inr (template1 ''Please provide a concise 2-3 sentence summary of the following text:\<newline>\<newline>'' content [])
      else if task = ''grammar'' then
        Inr (template1 ''Please check the following text for grammar errors and provide suggestions for improvement:\<newline>\<newline>'' content [])
      else if task = ''tags'' then
        Inr (template1 ''Based on the following text, suggest 5 relevant tags (single words or short phrases). Return only the tags separated by commas:\<newline>\<newline>'' content [])
      else if task = ''translate'' then
        (if \<not> truthy language then
           Inl (send_json 400 (error_body ''Language is required for translation'') [])
         else
           Inr (template2 ''Translate the following text to '' language
                  ''. Maintain the original meaning and tone. Only return the translated text without any additional comments:\<newline>\<newline>'' content []))
      else if task = ''terms'' then
        Inr (template1 ''Identify 8-10 key technical terms, concepts, or important words from the following text. Return only the terms separated by commas:\<newline>\<newline>'' content [])
      else if task = ''define'' then
        Inr (template1 ''Provide a brief, clear definition (1-2 sentences maximum) for the term: "'' content
               ''". Focus on the most relevant meaning in context.'')
      else if task = ''detailed-define'' then
        Inr (template1 ''Provide a comprehensive but concise explanation of the term: "'' content
               ''". Include its definition, context, and why it's important. Keep it informative but not too lengthy (3-4 sentences maximum).'')
      else
        Inl (send_json 400
               (error_body ''Invalid task. Supported tasks: summary, grammar, tags, translate, terms, define, detailed-define'') []))\<close>

text \<open>
  The route.  Its \<^verbatim>\<open>fetch\<close> of \<^verbatim>\<open>/translate\<close> on the request's own host is taken to reach
  this server: the body \<^verbatim>\<open>{prompt}\<close> is parsed back by \<^verbatim>\<open>express.json()\<close> and answered by
  \<open>translate_route\<close>, whose JSON body \<^verbatim>\<open>response.json()\<close> returns.  The answer's status is
  not read, and \<^verbatim>\<open>res.json(data)\<close> sends with the default status 200.
\<close>

definition ai_route :: "env \<Rightarrow> upstream \<Rightarrow> string \<Rightarrow> jobject \<Rightarrow> result" where
  "ai_route e up task req_body =
     (let content = map_of req_body ''content'';
          language = map_of req_body ''language'' in
      if \<not> truthy content then send_json 400 (error_body ''Content is required'') []
      else
        case switch_task task content language of
          Inl r \<Rightarrow> r
        | Inr (Inl x) \<Rightarrow> catch_error x []
        | Inr (Inr prompt) \<Rightarrow>
            let inner = translate_route e up [(''prompt'', JStr prompt)] in
            case body inner of
              None \<Rightarrow> catch_error (SyntaxError ''Unexpected end of JSON input'') (upstream_calls inner)
            | Some data \<Rightarrow> send_json 200 data (upstream_calls inner))"

section \<open>The specification's template table\<close>

text \<open>
  The task tags and the table of section 4.1 of the specification, written from the
  specification: \<open>spec_template t content language\<close> is the row of \<open>t\<close> with
  \<^verbatim>\<open>{content}\<close> and \<^verbatim>\<open>{language}\<close> replaced.
\<close>

datatype task = Summary | Grammar | Tags | Translate | Terms | Define | Detailed_Define

fun task_name :: "task \<Rightarrow> string" where
  "task_name Summary = ''summary''"
| "task_name Grammar = ''grammar''"
| "task_name Tags = ''tags''"
| "task_name Translate = ''translate''"
| "task_name Terms = ''terms''"
| "task_name Define = ''define''"
| "task_name Detailed_Define = ''detailed-define''"

fun spec_template :: "task \<Rightarrow> string \<Rightarrow> string \<Rightarrow> string" where
  \<open>spec_template Summary content language =
     ''Please provide a concise 2-3 sentence summary of the following text:\<newline>\<newline>'' @ content\<close>
| \<open>spec_template Grammar content language =
     ''Please check the following text for grammar errors and provide suggestions for improvement:\<newline>\<newline>'' @ content\<close>
| \<open>spec_template Tags content language =
     ''Based on the following text, suggest 5 relevant tags (single words or short phrases). Return only the tags separated by commas:\<newline>\<newline>'' @ content\<close>
| \<open>spec_template Translate content language =
     ''Translate the following text to '' @ language @ ''. Maintain the original meaning and tone. Only return the translated text without any additional comments:\<newline>\<newline>'' @ content\<close>
| \<open>spec_template Terms content language =
     ''Identify 8-10 key technical terms, concepts, or important words from the following text. Return only the terms separated by commas:\<newline>\<newline>'' @ content\<close>
| \<open>spec_template Define content language =
     ''Provide a brief, clear definition (1-2 sentences maximum) for the term: "'' @ content @ ''". Focus on the most relevant meaning in context.''\<close>
| \<open>spec_template Detailed_Define content language =
     ''Provide a comprehensive but concise explanation of the term: "'' @ content @ ''". Include its definition, context, and why it's important. Keep it informative but not too lengthy (3-4 sentences maximum).''\<close>

text \<open>The task names of the \<^verbatim>\<open>switch\<close>, as its \<^verbatim>\<open>default\<close> branch lists them.\<close>

definition supported_tasks :: "string list" where
  "supported_tasks =
     [''summary'', ''grammar'', ''tags'', ''translate'', ''terms'', ''define'', ''detailed-define'']"

section \<open>Two fetch implementations, one upstream\<close>

text \<open>
  The server imports \<^verbatim>\<open>fetch\<close> from \<^verbatim>\<open>node-fetch\<close>, the serverless handler calls the
  runtime's global \<^verbatim>\<open>fetch\<close>.  Facing the same upstream behaviour the two agree on the
  status and on the parsed body, and they fail together, but each raises its own error
  with its own message when the transport fails or the body does not parse.
\<close>

fun same_upstream_outcome :: "fetch_result \<Rightarrow> fetch_result \<Rightarrow> bool" where
  "same_upstream_outcome (Rejected x) (Rejected y) = True"
| "same_upstream_outcome (Response st (Inl x)) (Response st' (Inl y)) = (st = st')"
| "same_upstream_outcome (Response st (Inr d)) (Response st' (Inr d')) = (st = st' \<and> d = d')"
| "same_upstream_outcome r r' = False"

section \<open>Facts shared by the properties below\<close>

lemma truthy_string_iff:
  "(\<not> truthy p \<or> typeof p \<noteq> ''string'') = (\<forall>s. p = Some (JStr s) \<longrightarrow> s = [])"
  by (cases p rule: typeof.cases) auto

lemma translate_route_has_body: "\<exists>d. body (translate_route e up b) = Some d"
  by (auto simp: translate_route_def send_json_def catch_error_def Let_def
      split: fetch_result.splits sum.splits bool.splits)

lemma ai_route_delegates:
  assumes "truthy (map_of b ''content'')"
    and "switch_task task (map_of b ''content'') (map_of b ''language'') = Inr (Inr p)"
  shows "status (ai_route e up task b) = 200
       \<and> body (ai_route e up task b) = body (translate_route e up [(''prompt'', JStr p)])
       \<and> upstream_calls (ai_route e up task b) = upstream_calls (translate_route e up [(''prompt'', JStr p)])"
proof -
  obtain d where d: "body (translate_route e up [(''prompt'', JStr p)]) = Some d"
    using translate_route_has_body by blast
  show ?thesis
    using assms d by (simp add: ai_route_def Let_def send_json_def)
qed

lemma switch_task_template:
  assumes "t = Translate \<longrightarrow> lang = Some (JStr language) \<and> language \<noteq> []"
  shows "switch_task (task_name t) (Some (JStr content)) lang = Inr (Inr (spec_template t content language))"
  using assms by (cases t) (simp_all add: switch_task_def template1_def template2_def)

lemma invalid_prompt_rejected:
  assumes "\<not> truthy (map_of b ''prompt'') \<or> typeof (map_of b ''prompt'') \<noteq> ''string''"
  shows "translate_route e up b
           = send_json 400 (error_body ''Invalid request: prompt is required and must be a string'') []"
    and "handler e up \<lparr>http_method = ''POST'', http_body = b\<rparr>
           = send_json 400 (error_body ''Invalid request: prompt is required and must be a string'') []"
  using assms by (simp_all add: translate_route_def handler_def Let_def)

lemma missing_content_rejected:
  assumes "\<not> truthy (map_of b ''content'')"
  shows "ai_route e up task b = send_json 400 (error_body ''Content is required'') []"
  using assms by (simp add: ai_route_def Let_def)

lemma missing_credential:
  assumes "map_of b ''prompt'' = Some (JStr p)" and "p \<noteq> []"
    and "\<not> truthy (env_value (GROQ_API_KEY e))"
  shows "translate_route e up b
           = send_json 500 (error_body ''Server configuration error: GROQ_API_KEY not found in environment variables'') []"
    and "handler e up \<lparr>http_method = ''POST'', http_body = b\<rparr>
           = send_json 500 (error_body ''Server configuration error: GROQ_API_KEY not found'') []"
  using assms by (simp_all add: translate_route_def handler_def Let_def)

lemma upstream_success:
  assumes "map_of b ''prompt'' = Some (JStr p)" and "p \<noteq> []"
    and "truthy (env_value (GROQ_API_KEY e))"
    and "up (groq_call e (Some (JStr p))) = Response st (Inr parsed)" and "ok st"
  shows "translate_route e up b =
           (case invalid_structure parsed of
              Inl x \<Rightarrow> catch_error x [groq_call e (Some (JStr p))]
            | Inr True \<Rightarrow> send_json 500 (error_body ''Invalid response from AI service'') [groq_call e (Some (JStr p))]
            | Inr False \<Rightarrow> send_json 200 parsed [groq_call e (Some (JStr p))])"
    and "handler e up \<lparr>http_method = ''POST'', http_body = b\<rparr> =
           (case invalid_structure parsed of
              Inl x \<Rightarrow> catch_error x [groq_call e (Some (JStr p))]
            | Inr True \<Rightarrow> send_json 500 (error_body ''Invalid response from AI service'') [groq_call e (Some (JStr p))]
            | Inr False \<Rightarrow> send_json 200 parsed [groq_call e (Some (JStr p))])"
  using assms by (simp_all add: translate_route_def handler_def Let_def)

lemma choice_message_valid:
  assumes "get_prop ''choices'' parsed = Some (JArr (choice # rest))"
    and "get_prop ''message'' choice = Some m" and "truthy_json m"
  shows "invalid_structure parsed = Inr False"
proof -
  have "parsed \<noteq> JNull" using assms(1) by auto
  moreover have "truthy_json choice" using assms(2) by (cases choice) auto
  ultimately show ?thesis using assms by (simp add: invalid_structure_def)
qed

lemma spec_template_nonempty: "spec_template t content language \<noteq> []"
  by (cases t) simp_all

lemma malformed_upstream_rejected:
  assumes "map_of b ''prompt'' = Some (JStr p)" and "p \<noteq> []"
    and "truthy (env_value (GROQ_API_KEY e))"
    and "up (groq_call e (Some (JStr p))) = Response st (Inr parsed)" and "ok st"
    and "invalid_structure parsed = Inr True"
  shows "translate_route e up b
           = send_json 500 (error_body ''Invalid response from AI service'') [groq_call e (Some (JStr p))]"
    and "handler e up \<lparr>http_method = ''POST'', http_body = b\<rparr>
           = send_json 500 (error_body ''Invalid response from AI service'') [groq_call e (Some (JStr p))]"
  using assms upstream_success [of b p e up st parsed] by simp_all

lemma empty_object_malformed: "invalid_structure (JObj []) = Inr True"
  by (simp add: invalid_structure_def)

lemma template1_cases:
  "(\<exists>x. template1 s0 v s1 = Inl x) \<or> (\<exists>p. template1 s0 v s1 = Inr p)"
  by (simp add: template1_def split: option.splits)

lemma template2_cases:
  "(\<exists>x. template2 s0 v s1 w s2 = Inl x) \<or> (\<exists>p. template2 s0 v s1 w s2 = Inr p)"
  by (simp add: template2_def split: option.splits)

lemma switch_task_supported:
  assumes "t = Translate \<longrightarrow> truthy language"
  shows "(\<exists>x. switch_task (task_name t) content language = Inr (Inl x))
       \<or> (\<exists>p. switch_task (task_name t) content language = Inr (Inr p))"
  using assms template1_cases template2_cases
  by (cases t) (simp_all add: switch_task_def)

section \<open>Properties of the relay\<close>

text \<open>
  C1.  Not every language string yields a prompt: for the translate task the empty
  language is falsy, so the \<^verbatim>\<open>switch\<close> answers 400 "Language is required for translation"
  and builds no prompt, and the empty content is answered 400 before the \<^verbatim>\<open>switch\<close> is
  reached.
\<close>

theorem C1_counterexample:
  "switch_task ''translate'' (Some (JStr ''hi'')) (Some (JStr []))
     = Inl \<lparr>status = 400, body = Some (JObj [(''error'', JStr ''Language is required for translation'')]),
            upstream_calls = []\<rparr>
   \<and> switch_task ''translate'' (Some (JStr ''hi'')) (Some (JStr []))
       \<noteq> Inr (Inr (spec_template Translate ''hi'' []))
   \<and> ai_route \<lparr>GROQ_API_KEY = Some ''k'', GROQ_MODEL = None\<rparr> (\<lambda>c. Response 200 (Inr (JObj [(''choices'', JArr [JObj [(''message'', JObj [(''content'', JStr ''X'')])]])]))) ''translate'' [(''content'', JStr ''hi''), (''language'', JStr [])]
       = \<lparr>status = 400, body = Some (JObj [(''error'', JStr ''Language is required for translation'')]),
          upstream_calls = []\<rparr>
   \<and> ai_route \<lparr>GROQ_API_KEY = Some ''k'', GROQ_MODEL = None\<rparr> (\<lambda>c. Response 200 (Inr (JObj [(''choices'', JArr [JObj [(''message'', JObj [(''content'', JStr ''X'')])]])]))) ''summary'' [(''content'', JStr [])]
       = \<lparr>status = 400, body = Some (JObj [(''error'', JStr ''Content is required'')]),
          upstream_calls = []\<rparr>"
  by (simp add: ai_route_def switch_task_def send_json_def error_body_def)

text \<open>
  C1, as the code has it.  For each of the seven tasks, every content string and, for the
  translate task, every non-empty language string, the prompt that the \<^verbatim>\<open>switch\<close> of
  \<^verbatim>\<open>POST /ai/:task\<close> builds is exactly the row of the specification's table with content
  and language put in unchanged, whatever characters they contain, and when the content
  is not empty the route hands this very prompt to \<^verbatim>\<open>/translate\<close>.  The empty language of
  the translate task is answered 400 inside the \<^verbatim>\<open>switch\<close>.
\<close>

theorem C1_prompt_is_spec_template:
  assumes "map_of b ''content'' = Some (JStr content)"
    and "t = Translate \<longrightarrow> map_of b ''language'' = Some (JStr language)"
  shows "switch_task (task_name t) (map_of b ''content'') (map_of b ''language'')
           = (if t = Translate \<and> language = []
              then Inl (send_json 400 (error_body ''Language is required for translation'') [])
              else Inr (Inr (spec_template t content language)))
       \<and> (content \<noteq> [] \<and> \<not> (t = Translate \<and> language = []) \<longrightarrow>
            body (ai_route e up (task_name t) b)
              = body (translate_route e up [(''prompt'', JStr (spec_template t content language))])
          \<and> upstream_calls (ai_route e up (task_name t) b)
              = upstream_calls (translate_route e up [(''prompt'', JStr (spec_template t content language))]))"
proof (cases "t = Translate \<and> language = []")
  case True
  then show ?thesis using assms by (simp add: switch_task_def)
next
  case False
  then have lang: "t = Translate \<longrightarrow> map_of b ''language'' = Some (JStr language) \<and> language \<noteq> []"
    using assms(2) by blast
  have sw: "switch_task (task_name t) (map_of b ''content'') (map_of b ''language'')
           = Inr (Inr (spec_template t content language))"
    using assms(1) lang switch_task_template [of t "map_of b ''language''" language content] by simp
  have "content \<noteq> [] \<Longrightarrow>
        body (ai_route e up (task_name t) b)
          = body (translate_route e up [(''prompt'', JStr (spec_template t content language))])
      \<and> upstream_calls (ai_route e up (task_name t) b)
          = upstream_calls (translate_route e up [(''prompt'', JStr (spec_template t content language))])"
  proof -
    assume "content \<noteq> []"
    then have "truthy (map_of b ''content'')" using assms(1) by simp
    then show ?thesis using ai_route_delegates [OF _ sw, of e up] by blast
  qed
  then show ?thesis using sw False by simp
qed

theorem C1_witness:
  \<open>switch_task ''translate'' (Some (JStr ''<b>"a" & $b{c}'')) (Some (JStr ''French''))
     = Inr (Inr ''Translate the following text to French. Maintain the original meaning and tone. Only return the translated text without any additional comments:\<newline>\<newline><b>"a" & $b{c}'')
   \<and> upstream_calls (ai_route \<lparr>GROQ_API_KEY = Some ''k'', GROQ_MODEL = None\<rparr> (\<lambda>c. Rejected (FetchError ''down''))
        ''translate'' [(''content'', JStr ''<b>"a" & $b{c}''), (''language'', JStr ''French'')])
     = [\<lparr>authorization = ''Bearer k'', model = JStr ''llama-3.1-8b-instant'',
         user_content = Some (JStr ''Translate the following text to French. Maintain the original meaning and tone. Only return the translated text without any additional comments:\<newline>\<newline><b>"a" & $b{c}'')\<rparr>]\<close>
  using C1_prompt_is_spec_template [of \<open>[(''content'', JStr ''<b>"a" & $b{c}''), (''language'', JStr ''French'')]\<close>
      \<open>''<b>"a" & $b{c}''\<close> Translate "''French''" "\<lparr>GROQ_API_KEY = Some ''k'', GROQ_MODEL = None\<rparr>"
      "\<lambda>c. Rejected (FetchError ''down'')"]
  by (simp add: translate_route_def env_value_def groq_call_def catch_error_def send_json_def)

text \<open>
  C2.  When the prompt is a non-empty string, the credential is configured and the
  upstream answers with a success status and a body whose \<^verbatim>\<open>choices[0].message\<close> is
  present and truthy, \<^verbatim>\<open>POST /translate\<close> answers 200 with exactly the upstream body, in the
  server route and in the serverless handler.
\<close>

theorem C2_success_passthrough:
  assumes "map_of b ''prompt'' = Some (JStr p)" and "p \<noteq> []"
    and "truthy (env_value (GROQ_API_KEY e))"
    and "up (groq_call e (Some (JStr p))) = Response st (Inr parsed)" and "ok st"
    and "get_prop ''choices'' parsed = Some (JArr (choice # rest))"
    and "get_prop ''message'' choice = Some m" and "truthy_json m"
  shows "translate_route e up b = send_json 200 parsed [groq_call e (Some (JStr p))]
       \<and> handler e up \<lparr>http_method = ''POST'', http_body = b\<rparr>
           = send_json 200 parsed [groq_call e (Some (JStr p))]"
  using assms upstream_success [of b p e up st parsed] choice_message_valid [of parsed choice rest m]
  by simp

theorem C2_witness:
  "translate_route \<lparr>GROQ_API_KEY = Some ''k'', GROQ_MODEL = None\<rparr>
      (\<lambda>c. Response 200 (Inr (JObj [(''choices'', JArr [JObj [(''message'', JObj [(''content'', JStr ''X'')])]])])))
      [(''prompt'', JStr ''hi'')]
    = \<lparr>status = 200,
       body = Some (JObj [(''choices'', JArr [JObj [(''message'', JObj [(''content'', JStr ''X'')])]])]),
       upstream_calls = [\<lparr>authorization = ''Bearer k'', model = JStr ''llama-3.1-8b-instant'',
                          user_content = Some (JStr ''hi'')\<rparr>]\<rparr>
   \<and> handler \<lparr>GROQ_API_KEY = Some ''k'', GROQ_MODEL = None\<rparr>
      (\<lambda>c. Response 200 (Inr (JObj [(''choices'', JArr [JObj [(''message'', JObj [(''content'', JStr ''X'')])]])])))
      \<lparr>http_method = ''POST'', http_body = [(''prompt'', JStr ''hi'')]\<rparr>
    = \<lparr>status = 200,
       body = Some (JObj [(''choices'', JArr [JObj [(''message'', JObj [(''content'', JStr ''X'')])]])]),
       upstream_calls = [\<lparr>authorization = ''Bearer k'', model = JStr ''llama-3.1-8b-instant'',
                          user_content = Some (JStr ''hi'')\<rparr>]\<rparr>"
  using C2_success_passthrough [of "[(''prompt'', JStr ''hi'')]" "''hi''"
      "\<lparr>GROQ_API_KEY = Some ''k'', GROQ_MODEL = None\<rparr>"
      "\<lambda>c. Response 200 (Inr (JObj [(''choices'', JArr [JObj [(''message'', JObj [(''content'', JStr ''X'')])]])]))"
      200 "JObj [(''choices'', JArr [JObj [(''message'', JObj [(''content'', JStr ''X'')])]])]"
      "JObj [(''message'', JObj [(''content'', JStr ''X'')])]" "[]" "JObj [(''content'', JStr ''X'')]"]
  by (simp add: env_value_def ok_def groq_call_def send_json_def)


text \<open>
  C3.  For a valid task request \<^verbatim>\<open>POST /ai/:task\<close> sends the body that \<^verbatim>\<open>POST /translate\<close>
  sends for the resolved template prompt, but always with status 200: the status of the
  \<^verbatim>\<open>/translate\<close> answer is not relayed.  With no credential configured \<^verbatim>\<open>/translate\<close>
  answers 500 and \<^verbatim>\<open>/ai/:task\<close> answers 200 with the same error body.
\<close>

theorem C3_status_not_relayed:
  assumes "map_of b ''content'' = Some (JStr content)" and "content \<noteq> []"
    and "t = Translate \<longrightarrow> map_of b ''language'' = Some (JStr language) \<and> language \<noteq> []"
  shows "status (ai_route e up (task_name t) b) = 200
       \<and> body (ai_route e up (task_name t) b)
           = body (translate_route e up [(''prompt'', JStr (spec_template t content language))])
       \<and> (\<not> truthy (env_value (GROQ_API_KEY e)) \<longrightarrow>
            status (translate_route e up [(''prompt'', JStr (spec_template t content language))]) = 500)"
proof -
  have sw: "switch_task (task_name t) (map_of b ''content'') (map_of b ''language'')
           = Inr (Inr (spec_template t content language))"
    using assms switch_task_template [of t "map_of b ''language''" language content] by simp
  have tr: "truthy (map_of b ''content'')" using assms(1,2) by simp
  have "\<not> truthy (env_value (GROQ_API_KEY e)) \<Longrightarrow>
        status (translate_route e up [(''prompt'', JStr (spec_template t content language))]) = 500"
    using missing_credential(1) [of "[(''prompt'', JStr (spec_template t content language))]"
        "spec_template t content language" e up] spec_template_nonempty [of t content language]
    by (simp add: send_json_def)
  then show ?thesis using ai_route_delegates [OF tr sw, of e up] by blast
qed

theorem C3_witness:
  "status (ai_route \<lparr>GROQ_API_KEY = None, GROQ_MODEL = None\<rparr> (\<lambda>c. Rejected (FetchError ''down'')) ''summary'' [(''content'', JStr ''hi'')]) = 200
   \<and> body (ai_route \<lparr>GROQ_API_KEY = None, GROQ_MODEL = None\<rparr> (\<lambda>c. Rejected (FetchError ''down'')) ''summary'' [(''content'', JStr ''hi'')]) = Some (error_body ''Server configuration error: GROQ_API_KEY not found in environment variables'')
   \<and> translate_route \<lparr>GROQ_API_KEY = None, GROQ_MODEL = None\<rparr> (\<lambda>c. Rejected (FetchError ''down'')) [(''prompt'', JStr (spec_template Summary ''hi'' []))]
       = \<lparr>status = 500, body = Some (error_body ''Server configuration error: GROQ_API_KEY not found in environment variables''), upstream_calls = []\<rparr>"
  using C3_status_not_relayed [of "[(''content'', JStr ''hi'')]" "''hi''" Summary "[]" "\<lparr>GROQ_API_KEY = None, GROQ_MODEL = None\<rparr>" "(\<lambda>c. Rejected (FetchError ''down''))"]
  by (simp add: translate_route_def env_value_def send_json_def)

text \<open>
  C4.  The content check of \<^verbatim>\<open>POST /ai/:task\<close> tests truthiness only, where both
  \<^verbatim>\<open>/translate\<close> deployments also test \<^verbatim>\<open>typeof\<close>.  A truthy content that is not a string
  is never answered 400 by a supported task: it is converted to a string inside the
  template and relayed with status 200, or the conversion throws and the \<^verbatim>\<open>catch\<close> block
  answers 500.  The number 5 reaches the upstream as "...5", the empty object as
  "...[object Object]".  A missing or non-string prompt and a missing or falsy content are
  rejected (\<open>invalid_prompt_rejected\<close>, \<open>missing_content_rejected\<close>).
\<close>

theorem C4_non_string_content_not_rejected:
  assumes "truthy (map_of b ''content'')" and "typeof (map_of b ''content'') \<noteq> ''string''"
    and "t = Translate \<longrightarrow> truthy (map_of b ''language'')"
  shows "status (ai_route e up (task_name t) b) \<noteq> 400
       \<and> (status (ai_route e up (task_name t) b) = 200 \<or> status (ai_route e up (task_name t) b) = 500)"
proof -
  consider x where "switch_task (task_name t) (map_of b ''content'') (map_of b ''language'') = Inr (Inl x)"
    | p where "switch_task (task_name t) (map_of b ''content'') (map_of b ''language'') = Inr (Inr p)"
    using switch_task_supported [OF assms(3)] by blast
  then show ?thesis
  proof cases
    case 1
    then show ?thesis using assms(1) by (simp add: ai_route_def Let_def catch_error_def send_json_def)
  next
    case 2
    then show ?thesis using ai_route_delegates [OF assms(1) 2, of e up] by simp
  qed
qed

theorem C4_witness:
  "typeof (Some (JNum 5)) = ''number''
   \<and> ai_route \<lparr>GROQ_API_KEY = Some ''k'', GROQ_MODEL = None\<rparr> (\<lambda>c. Response 200 (Inr (JObj [(''choices'', JArr [JObj [(''message'', JObj [(''content'', JStr ''X'')])]])]))) ''summary'' [(''content'', JNum 5)]
       = \<lparr>status = 200, body = Some (JObj [(''choices'', JArr [JObj [(''message'', JObj [(''content'', JStr ''X'')])]])]),
          upstream_calls = [\<lparr>authorization = ''Bearer k'', model = JStr ''llama-3.1-8b-instant'',
            user_content = Some (JStr ''Please provide a concise 2-3 sentence summary of the following text:\<newline>\<newline>5'')\<rparr>]\<rparr>
   \<and> ai_route \<lparr>GROQ_API_KEY = Some ''k'', GROQ_MODEL = None\<rparr> (\<lambda>c. Response 200 (Inr (JObj [(''choices'', JArr [JObj [(''message'', JObj [(''content'', JStr ''X'')])]])]))) ''summary'' [(''content'', JObj [])]
       = \<lparr>status = 200, body = Some (JObj [(''choices'', JArr [JObj [(''message'', JObj [(''content'', JStr ''X'')])]])]),
          upstream_calls = [\<lparr>authorization = ''Bearer k'', model = JStr ''llama-3.1-8b-instant'',
            user_content = Some (JStr ''Please provide a concise 2-3 sentence summary of the following text:\<newline>\<newline>[object Object]'')\<rparr>]\<rparr>
   \<and> ai_route \<lparr>GROQ_API_KEY = Some ''k'', GROQ_MODEL = None\<rparr> (\<lambda>c. Response 200 (Inr (JObj [(''choices'', JArr [JObj [(''message'', JObj [(''content'', JStr ''X'')])]])]))) ''summary'' [(''content'', JObj [(''toString'', JNum 1)])]
       = \<lparr>status = 500,
          body = Some (JObj [(''error'', JStr ''Internal server error: Cannot convert object to primitive value'')]),
          upstream_calls = []\<rparr>"
  using C4_non_string_content_not_rejected [of "[(''content'', JNum 5)]" Summary "\<lparr>GROQ_API_KEY = Some ''k'', GROQ_MODEL = None\<rparr>" "(\<lambda>c. Response 200 (Inr (JObj [(''choices'', JArr [JObj [(''message'', JObj [(''content'', JStr ''X'')])]])])))"]
  by (simp add: ai_route_def switch_task_def template1_def show_int_def show_nat.simps digit_char_def
      translate_route_def env_value_def groq_call_def invalid_structure_def send_json_def ok_def
      catch_error_def cannot_convert_def error_body_def)

text \<open>
  C5.  The content check runs before the \<^verbatim>\<open>switch\<close>: the unknown task \<^verbatim>\<open>bogus\<close> with an
  empty request body is answered 400 "Content is required", not with the list of
  supported tasks.
\<close>

theorem C5_counterexample:
  "''bogus'' \<notin> set supported_tasks
   \<and> ai_route \<lparr>GROQ_API_KEY = Some ''k'', GROQ_MODEL = None\<rparr> (\<lambda>c. Response 200 (Inr (JObj [(''choices'', JArr [JObj [(''message'', JObj [(''content'', JStr ''X'')])]])]))) ''bogus'' []
       = \<lparr>status = 400, body = Some (JObj [(''error'', JStr ''Content is required'')]), upstream_calls = []\<rparr>
   \<and> body (ai_route \<lparr>GROQ_API_KEY = Some ''k'', GROQ_MODEL = None\<rparr> (\<lambda>c. Response 200 (Inr (JObj [(''choices'', JArr [JObj [(''message'', JObj [(''content'', JStr ''X'')])]])]))) ''bogus'' []) \<noteq> Some (JObj [(''error'', JStr ''Invalid task. Supported tasks: summary, grammar, tags, translate, terms, define, detailed-define'')])"
  by (simp add: supported_tasks_def ai_route_def send_json_def error_body_def)

text \<open>
  C5, as the code has it.  A request to \<^verbatim>\<open>POST /ai/:task\<close> with a task outside the seven
  supported ones is always answered 400 without an upstream call: with the list of
  supported tasks when the content is truthy, with "Content is required" otherwise.
\<close>

theorem C5_unknown_task:
  assumes "task \<notin> set supported_tasks"
  shows "ai_route e up task b =
           send_json 400
             (error_body (if truthy (map_of b ''content'') then ''Invalid task. Supported tasks: summary, grammar, tags, translate, terms, define, detailed-define'' else ''Content is required'')) []"
  using assms by (simp add: supported_tasks_def ai_route_def switch_task_def Let_def)

theorem C5_witness:
  "ai_route \<lparr>GROQ_API_KEY = Some ''k'', GROQ_MODEL = None\<rparr> (\<lambda>c. Response 200 (Inr (JObj [(''choices'', JArr [JObj [(''message'', JObj [(''content'', JStr ''X'')])]])]))) ''bogus'' [(''content'', JStr ''hi'')]
     = \<lparr>status = 400, body = Some (JObj [(''error'', JStr ''Invalid task. Supported tasks: summary, grammar, tags, translate, terms, define, detailed-define'')]), upstream_calls = []\<rparr>"
  using C5_unknown_task [of "''bogus''" "\<lparr>GROQ_API_KEY = Some ''k'', GROQ_MODEL = None\<rparr>" "(\<lambda>c. Response 200 (Inr (JObj [(''choices'', JArr [JObj [(''message'', JObj [(''content'', JStr ''X'')])]])])))" "[(''content'', JStr ''hi'')]"]
  by (simp add: supported_tasks_def send_json_def error_body_def)

text \<open>
  C6.  \<^verbatim>\<open>POST /ai/translate\<close> without a \<^verbatim>\<open>language\<close> field is always answered 400 with an
  invalid-input error, whatever the content: "Language is required for translation" when
  the content is truthy, "Content is required" otherwise.  No upstream call is made.
\<close>

theorem C6_translate_needs_language:
  assumes "map_of b ''language'' = None"
  shows "ai_route e up ''translate'' b =
           send_json 400
             (error_body (if truthy (map_of b ''content'') then ''Language is required for translation''
                          else ''Content is required'')) []"
  using assms by (simp add: ai_route_def switch_task_def Let_def)

theorem C6_witness:
  "ai_route \<lparr>GROQ_API_KEY = Some ''k'', GROQ_MODEL = None\<rparr> (\<lambda>c. Response 200 (Inr (JObj [(''choices'', JArr [JObj [(''message'', JObj [(''content'', JStr ''X'')])]])]))) ''translate'' [(''content'', JStr ''hi'')]
     = \<lparr>status = 400, body = Some (JObj [(''error'', JStr ''Language is required for translation'')]),
        upstream_calls = []\<rparr>"
  using C6_translate_needs_language [of "[(''content'', JStr ''hi'')]" "\<lparr>GROQ_API_KEY = Some ''k'', GROQ_MODEL = None\<rparr>" "(\<lambda>c. Response 200 (Inr (JObj [(''choices'', JArr [JObj [(''message'', JObj [(''content'', JStr ''X'')])]])])))"]
  by (simp add: send_json_def error_body_def)

text \<open>
  C7.  The response-shape check reads \<^verbatim>\<open>data.choices\<close> without testing \<^verbatim>\<open>data\<close> itself.
  An upstream success whose JSON body is \<^verbatim>\<open>null\<close> lacks the \<^verbatim>\<open>choices[0].message\<close> shape, yet
  the read throws and the \<^verbatim>\<open>catch\<close> block answers 500 "Internal server error: ..." in
  place of "Invalid response from AI service".  Every other malformed body, the empty
  object included, gets the latter (\<open>malformed_upstream_rejected\<close>).
\<close>

theorem C7_null_body_not_validated:
  assumes "map_of b ''prompt'' = Some (JStr p)" and "p \<noteq> []"
    and "truthy (env_value (GROQ_API_KEY e))"
    and "up (groq_call e (Some (JStr p))) = Response st (Inr JNull)" and "ok st"
  shows "translate_route e up b
           = send_json 500
               (error_body ''Internal server error: Cannot read properties of null (reading 'choices')'')
               [groq_call e (Some (JStr p))]
       \<and> handler e up \<lparr>http_method = ''POST'', http_body = b\<rparr>
           = send_json 500
               (error_body ''Internal server error: Cannot read properties of null (reading 'choices')'')
               [groq_call e (Some (JStr p))]
       \<and> body (translate_route e up b) \<noteq> Some (error_body ''Invalid response from AI service'')"
  using assms upstream_success [of b p e up st JNull]
  by (simp add: invalid_structure_def catch_error_def send_json_def error_body_def)

theorem C7_witness:
  "translate_route \<lparr>GROQ_API_KEY = Some ''k'', GROQ_MODEL = None\<rparr> (\<lambda>c. Response 200 (Inr JNull)) [(''prompt'', JStr ''hi'')]
     = \<lparr>status = 500,
        body = Some (JObj [(''error'', JStr ''Internal server error: Cannot read properties of null (reading 'choices')'')]),
        upstream_calls = [\<lparr>authorization = ''Bearer k'', model = JStr ''llama-3.1-8b-instant'', user_content = Some (JStr ''hi'')\<rparr>]\<rparr>"
  using C7_null_body_not_validated [of "[(''prompt'', JStr ''hi'')]" "''hi''" "\<lparr>GROQ_API_KEY = Some ''k'', GROQ_MODEL = None\<rparr>" "(\<lambda>c. Response 200 (Inr JNull))" 200]
  by (simp add: env_value_def ok_def groq_call_def send_json_def error_body_def)

text \<open>
  C8.  In both deployments \<^verbatim>\<open>POST /translate\<close> with the empty object answers 400 with a
  body that has an \<^verbatim>\<open>error\<close> field, and with \<^verbatim>\<open>{prompt: "hi"}\<close> while \<^verbatim>\<open>GROQ_API_KEY\<close> is
  unset or empty it answers 500 with the missing-credential error; neither makes an
  upstream call.
\<close>

theorem C8_empty_body_and_missing_credential:
  "translate_route e up [] = send_json 400 (error_body ''Invalid request: prompt is required and must be a string'') []
   \<and> handler e up \<lparr>http_method = ''POST'', http_body = []\<rparr> = send_json 400 (error_body ''Invalid request: prompt is required and must be a string'') []
   \<and> get_prop ''error'' (error_body ''Invalid request: prompt is required and must be a string'') = Some (JStr ''Invalid request: prompt is required and must be a string'')
   \<and> (\<not> truthy (env_value (GROQ_API_KEY e)) \<longrightarrow>
        translate_route e up [(''prompt'', JStr ''hi'')] = send_json 500 (error_body ''Server configuration error: GROQ_API_KEY not found in environment variables'') []
      \<and> handler e up \<lparr>http_method = ''POST'', http_body = [(''prompt'', JStr ''hi'')]\<rparr>
          = send_json 500 (error_body ''Server configuration error: GROQ_API_KEY not found'') [])"
  using invalid_prompt_rejected [of "[]" e up]
    missing_credential [of "[(''prompt'', JStr ''hi'')]" "''hi''" e up]
  by (simp add: error_body_def)

theorem C8_witness:
  "translate_route \<lparr>GROQ_API_KEY = None, GROQ_MODEL = None\<rparr> (\<lambda>c. Response 200 (Inr (JObj [(''choices'', JArr [JObj [(''message'', JObj [(''content'', JStr ''X'')])]])]))) [] = \<lparr>status = 400, body = Some (JObj [(''error'', JStr ''Invalid request: prompt is required and must be a string'')]), upstream_calls = []\<rparr>
   \<and> translate_route \<lparr>GROQ_API_KEY = None, GROQ_MODEL = None\<rparr> (\<lambda>c. Response 200 (Inr (JObj [(''choices'', JArr [JObj [(''message'', JObj [(''content'', JStr ''X'')])]])]))) [(''prompt'', JStr ''hi'')]
       = \<lparr>status = 500, body = Some (JObj [(''error'', JStr ''Server configuration error: GROQ_API_KEY not found in environment variables'')]), upstream_calls = []\<rparr>
   \<and> handler \<lparr>GROQ_API_KEY = None, GROQ_MODEL = None\<rparr> (\<lambda>c. Response 200 (Inr (JObj [(''choices'', JArr [JObj [(''message'', JObj [(''content'', JStr ''X'')])]])]))) \<lparr>http_method = ''POST'', http_body = [(''prompt'', JStr ''hi'')]\<rparr>
       = \<lparr>status = 500, body = Some (JObj [(''error'', JStr ''Server configuration error: GROQ_API_KEY not found'')]), upstream_calls = []\<rparr>"
  using C8_empty_body_and_missing_credential [of "\<lparr>GROQ_API_KEY = None, GROQ_MODEL = None\<rparr>" "(\<lambda>c. Response 200 (Inr (JObj [(''choices'', JArr [JObj [(''message'', JObj [(''content'', JStr ''X'')])]])])))"]
  by (simp add: env_value_def send_json_def error_body_def)

text \<open>
  C9.  The two deployments of \<^verbatim>\<open>POST /translate\<close> do not send the same body on the
  missing-credential branch (the server's message ends with "in environment variables")
  nor on the upstream-error branch (the server adds a \<^verbatim>\<open>details\<close> field).
\<close>

theorem C9_counterexample:
  "body (translate_route \<lparr>GROQ_API_KEY = None, GROQ_MODEL = None\<rparr> (\<lambda>c. Rejected (FetchError ''down'')) [(''prompt'', JStr ''hi'')]) = Some (JObj [(''error'', JStr ''Server configuration error: GROQ_API_KEY not found in environment variables'')])
   \<and> body (handler \<lparr>GROQ_API_KEY = None, GROQ_MODEL = None\<rparr> (\<lambda>c. Rejected (FetchError ''down'')) \<lparr>http_method = ''POST'', http_body = [(''prompt'', JStr ''hi'')]\<rparr>) = Some (JObj [(''error'', JStr ''Server configuration error: GROQ_API_KEY not found'')])
   \<and> body (translate_route \<lparr>GROQ_API_KEY = None, GROQ_MODEL = None\<rparr> (\<lambda>c. Rejected (FetchError ''down'')) [(''prompt'', JStr ''hi'')]) \<noteq> body (handler \<lparr>GROQ_API_KEY = None, GROQ_MODEL = None\<rparr> (\<lambda>c. Rejected (FetchError ''down'')) \<lparr>http_method = ''POST'', http_body = [(''prompt'', JStr ''hi'')]\<rparr>)
   \<and> body (translate_route \<lparr>GROQ_API_KEY = Some ''k'', GROQ_MODEL = None\<rparr> (\<lambda>c. Response 429 (Inr (JObj [(''error'', JObj [(''message'', JStr ''slow down'')])]))) [(''prompt'', JStr ''hi'')])
       = Some (JObj [(''error'', JStr ''slow down''),
                     (''details'', JObj [(''error'', JObj [(''message'', JStr ''slow down'')])])])
   \<and> body (handler \<lparr>GROQ_API_KEY = Some ''k'', GROQ_MODEL = None\<rparr> (\<lambda>c. Response 429 (Inr (JObj [(''error'', JObj [(''message'', JStr ''slow down'')])]))) \<lparr>http_method = ''POST'', http_body = [(''prompt'', JStr ''hi'')]\<rparr>) = Some (JObj [(''error'', JStr ''slow down'')])"
  by (simp add: translate_route_def handler_def env_value_def groq_call_def ok_def
      upstream_error_message_def send_json_def error_body_def)

text \<open>
  C9, as the code has it.  For every \<^verbatim>\<open>POST /translate\<close> request, when the two fetch
  implementations face the same upstream behaviour, the server route and the serverless
  handler send the same status and make the same upstream call.  Their bodies are equal
  except on three branches: the missing-credential branch, where each sends its own
  message; the upstream-error branch, where both carry the same \<^verbatim>\<open>error\<close> value and the
  server adds \<^verbatim>\<open>details\<close>, the upstream's parsed error body; and the \<^verbatim>\<open>catch\<close> branch of a
  failed fetch or an unparsable upstream body, where each sends "Internal server
  error: " followed by the message of its own fetch implementation's error.
\<close>

theorem C9_same_status_bodies_differ_on_three_branches:
  assumes "\<forall>c. same_upstream_outcome (up_s c) (up_h c)"
  shows "status (translate_route e up_s b) = status (handler e up_h \<lparr>http_method = ''POST'', http_body = b\<rparr>)
   \<and> upstream_calls (translate_route e up_s b) = upstream_calls (handler e up_h \<lparr>http_method = ''POST'', http_body = b\<rparr>)
   \<and> (body (translate_route e up_s b) = body (handler e up_h \<lparr>http_method = ''POST'', http_body = b\<rparr>)
      \<or> (status (translate_route e up_s b) = 500 \<and> upstream_calls (translate_route e up_s b) = []
         \<and> body (translate_route e up_s b) = Some (error_body ''Server configuration error: GROQ_API_KEY not found in environment variables'')
         \<and> body (handler e up_h \<lparr>http_method = ''POST'', http_body = b\<rparr>) = Some (error_body ''Server configuration error: GROQ_API_KEY not found''))
      \<or> (\<exists>st parsed m.
            up_s (groq_call e (map_of b ''prompt'')) = Response st (Inr parsed)
          \<and> up_h (groq_call e (map_of b ''prompt'')) = Response st (Inr parsed)
          \<and> upstream_error_message parsed = Inr m
          \<and> translate_route e up_s b
              = send_json st (JObj [(''error'', m), (''details'', parsed)]) [groq_call e (map_of b ''prompt'')]
          \<and> handler e up_h \<lparr>http_method = ''POST'', http_body = b\<rparr>
              = send_json st (JObj [(''error'', m)]) [groq_call e (map_of b ''prompt'')])
      \<or> (\<exists>x y.
            (up_s (groq_call e (map_of b ''prompt'')) = Rejected x
               \<or> (\<exists>st. up_s (groq_call e (map_of b ''prompt'')) = Response st (Inl x)))
          \<and> (up_h (groq_call e (map_of b ''prompt'')) = Rejected y
               \<or> (\<exists>st. up_h (groq_call e (map_of b ''prompt'')) = Response st (Inl y)))
          \<and> translate_route e up_s b = catch_error x [groq_call e (map_of b ''prompt'')]
          \<and> handler e up_h \<lparr>http_method = ''POST'', http_body = b\<rparr> = catch_error y [groq_call e (map_of b ''prompt'')]))"
proof -
  have ag: "same_upstream_outcome (up_s (groq_call e (map_of b ''prompt''))) (up_h (groq_call e (map_of b ''prompt'')))"
    using assms by blast
  show ?thesis
    using ag
    by (cases "(up_s (groq_call e (map_of b ''prompt'')), up_h (groq_call e (map_of b ''prompt'')))"
          rule: same_upstream_outcome.cases)
       (auto simp: translate_route_def handler_def send_json_def catch_error_def Let_def
          split: sum.splits bool.splits)
qed

theorem C9_witness:
  "translate_route \<lparr>GROQ_API_KEY = Some ''k'', GROQ_MODEL = None\<rparr> (\<lambda>c. Rejected (FetchError ''request to https://api.groq.com/openai/v1/chat/completions failed, reason: connect ECONNREFUSED'')) [(''prompt'', JStr ''hi'')]
     = \<lparr>status = 500,
        body = Some (JObj [(''error'', JStr ''Internal server error: request to https://api.groq.com/openai/v1/chat/completions failed, reason: connect ECONNREFUSED'')]),
        upstream_calls = [\<lparr>authorization = ''Bearer k'', model = JStr ''llama-3.1-8b-instant'', user_content = Some (JStr ''hi'')\<rparr>]\<rparr>
   \<and> handler \<lparr>GROQ_API_KEY = Some ''k'', GROQ_MODEL = None\<rparr> (\<lambda>c. Rejected (TypeError ''fetch failed'')) \<lparr>http_method = ''POST'', http_body = [(''prompt'', JStr ''hi'')]\<rparr>
     = \<lparr>status = 500, body = Some (JObj [(''error'', JStr ''Internal server error: fetch failed'')]),
        upstream_calls = [\<lparr>authorization = ''Bearer k'', model = JStr ''llama-3.1-8b-instant'', user_content = Some (JStr ''hi'')\<rparr>]\<rparr>
   \<and> status (translate_route \<lparr>GROQ_API_KEY = Some ''k'', GROQ_MODEL = None\<rparr> (\<lambda>c. Rejected (FetchError ''request to https://api.groq.com/openai/v1/chat/completions failed, reason: connect ECONNREFUSED'')) [(''prompt'', JStr ''hi'')]) = status (handler \<lparr>GROQ_API_KEY = Some ''k'', GROQ_MODEL = None\<rparr> (\<lambda>c. Rejected (TypeError ''fetch failed'')) \<lparr>http_method = ''POST'', http_body = [(''prompt'', JStr ''hi'')]\<rparr>)"
  using C9_same_status_bodies_differ_on_three_branches [of "(\<lambda>c. Rejected (FetchError ''request to https://api.groq.com/openai/v1/chat/completions failed, reason: connect ECONNREFUSED''))" "(\<lambda>c. Rejected (TypeError ''fetch failed''))" "\<lparr>GROQ_API_KEY = Some ''k'', GROQ_MODEL = None\<rparr>" "[(''prompt'', JStr ''hi'')]"]
  by (simp add: translate_route_def handler_def env_value_def groq_call_def catch_error_def
      send_json_def error_body_def)

text \<open>
  C10.  The empty string is a string and is present, yet it is falsy: \<^verbatim>\<open>POST /translate\<close>
  with \<^verbatim>\<open>prompt === ""\<close> answers 400 in both deployments, and \<^verbatim>\<open>POST /ai/:task\<close> with
  \<^verbatim>\<open>content === ""\<close> answers 400, for every task.
\<close>

theorem C10_empty_string_rejected:
  "(map_of b ''prompt'' = Some (JStr []) \<longrightarrow>
      translate_route e up b = send_json 400 (error_body ''Invalid request: prompt is required and must be a string'') []
    \<and> handler e up \<lparr>http_method = ''POST'', http_body = b\<rparr> = send_json 400 (error_body ''Invalid request: prompt is required and must be a string'') [])
   \<and> (map_of b ''content'' = Some (JStr []) \<longrightarrow>
      ai_route e up task b = send_json 400 (error_body ''Content is required'') [])"
  using invalid_prompt_rejected [of b e up] missing_content_rejected [of b e up task] by simp

theorem C10_witness:
  "typeof (Some (JStr [])) = ''string''
   \<and> translate_route \<lparr>GROQ_API_KEY = Some ''k'', GROQ_MODEL = None\<rparr> (\<lambda>c. Response 200 (Inr (JObj [(''choices'', JArr [JObj [(''message'', JObj [(''content'', JStr ''X'')])]])]))) [(''prompt'', JStr [])]
     = \<lparr>status = 400, body = Some (JObj [(''error'', JStr ''Invalid request: prompt is required and must be a string'')]), upstream_calls = []\<rparr>
   \<and> handler \<lparr>GROQ_API_KEY = Some ''k'', GROQ_MODEL = None\<rparr> (\<lambda>c. Response 200 (Inr (JObj [(''choices'', JArr [JObj [(''message'', JObj [(''content'', JStr ''X'')])]])]))) \<lparr>http_method = ''POST'', http_body = [(''prompt'', JStr [])]\<rparr>
     = \<lparr>status = 400, body = Some (JObj [(''error'', JStr ''Invalid request: prompt is required and must be a string'')]), upstream_calls = []\<rparr>
   \<and> ai_route \<lparr>GROQ_API_KEY = Some ''k'', GROQ_MODEL = None\<rparr> (\<lambda>c. Response 200 (Inr (JObj [(''choices'', JArr [JObj [(''message'', JObj [(''content'', JStr ''X'')])]])]))) ''summary'' [(''content'', JStr [])]
     = \<lparr>status = 400, body = Some (JObj [(''error'', JStr ''Content is required'')]), upstream_calls = []\<rparr>"
  using C10_empty_string_rejected [of "[(''prompt'', JStr [])]" "\<lparr>GROQ_API_KEY = Some ''k'', GROQ_MODEL = None\<rparr>" "(\<lambda>c. Response 200 (Inr (JObj [(''choices'', JArr [JObj [(''message'', JObj [(''content'', JStr ''X'')])]])])))"]
    C10_empty_string_rejected [of "[(''content'', JStr [])]" "\<lparr>GROQ_API_KEY = Some ''k'', GROQ_MODEL = None\<rparr>" "(\<lambda>c. Response 200 (Inr (JObj [(''choices'', JArr [JObj [(''message'', JObj [(''content'', JStr ''X'')])]])])))" "''summary''"]
  by (simp add: send_json_def error_body_def)

end
